theory Spec2Isabelle
  imports Complex_Main "HOL-Library.Log_Nat"
begin

section \<open>The change-management decision logic of lacrosse-logic.js\<close>

text \<open>
  The JavaScript module \<^verbatim>\<open>lacrosse-logic.js\<close> holds two tables (\<^verbatim>\<open>RISK_DIMENSIONS\<close>,
  \<^verbatim>\<open>APPROVAL_WORKFLOWS\<close>) and three functions that decide (\<^verbatim>\<open>classifyChange\<close>,
  \<^verbatim>\<open>assessRisk\<close>, \<^verbatim>\<open>getApprovalPath\<close>); the rest of the file renders the results into a
  web page and is not modelled.
\<close>

subsection \<open>JavaScript values\<close>

text \<open>
  The arguments of \<^verbatim>\<open>classifyChange\<close> and \<^verbatim>\<open>getApprovalPath\<close> are documented as strings
  (or \<^verbatim>\<open>null\<close>). JavaScript does not enforce this, so the model takes the primitive values
  \<^verbatim>\<open>undefined\<close>, \<^verbatim>\<open>null\<close>, booleans and strings. Numbers, symbols and objects as
  arguments of these two functions are not modelled.

  A string is the list of the bytes of its UTF-8 encoding, which is how the source file
  stores it. The functions only compare and concatenate strings, and on well-formed text
  both operations agree with those on the UTF-16 code units of the JavaScript engine.
\<close>

datatype prim = JUndefined | JNull | JBool bool | JStr string

text \<open>
  The objects a property access on the workflow table can yield: an array of step
  strings (an own property of the table), or a member that every object literal inherits
  from \<^verbatim>\<open>Object.prototype\<close>, named by its property key.
\<close>

datatype obj = Arr "string list" | Builtin string

text \<open>
  How a call completes: it returns a value, or it throws an error (given by its name).
\<close>

datatype 'a completion = Returns 'a | Throws string

text \<open>
  A JavaScript number is an IEEE 754 double: a finite double, given by its value as a
  rational, an infinity or \<^verbatim>\<open>NaN\<close>. Every operation below rounds its exact result to
  the nearest double, so a \<open>Fin\<close> it yields holds the value of a double. The two zeros
  are one value \<open>Fin 0\<close>: a sum of integers that starts from \<open>0\<close> is never the
  negative zero, a non-zero integer divided by an array length does not underflow, and
  the operators \<^verbatim>\<open><=\<close> and \<^verbatim>\<open>===\<close> do not tell the zeros apart.
\<close>

datatype jsnum = Fin rat | PosInf | NegInf | NaN

text \<open>The conversion \<^verbatim>\<open>ToString\<close> that a template literal and a property key apply.\<close>

fun ToString :: "prim \<Rightarrow> string" where
  "ToString JUndefined = ''undefined''"
| "ToString JNull = ''null''"
| "ToString (JBool True) = ''true''"
| "ToString (JBool False) = ''false''"
| "ToString (JStr s) = s"

text \<open>The comparison \<^verbatim>\<open>a <= b\<close> on numbers: false as soon as one side is \<^verbatim>\<open>NaN\<close>.\<close>

fun js_le :: "jsnum \<Rightarrow> jsnum \<Rightarrow> bool" where
  "js_le NaN _ = False"
| "js_le _ NaN = False"
| "js_le NegInf _ = True"
| "js_le _ PosInf = True"
| "js_le (Fin a) (Fin b) = (a \<le> b)"
| "js_le PosInf _ = False"
| "js_le (Fin a) NegInf = False"

text \<open>The comparison \<^verbatim>\<open>a > b\<close>, which is \<^verbatim>\<open>b < a\<close>: also false on \<^verbatim>\<open>NaN\<close>.\<close>

fun js_gt :: "jsnum \<Rightarrow> jsnum \<Rightarrow> bool" where
  "js_gt NaN _ = False"
| "js_gt _ NaN = False"
| "js_gt PosInf PosInf = False"
| "js_gt PosInf _ = True"
| "js_gt _ PosInf = False"
| "js_gt NegInf _ = False"
| "js_gt (Fin a) NegInf = True"
| "js_gt (Fin a) (Fin b) = (b < a)"

subsection \<open>Arithmetic on doubles\<close>

text \<open>
  The binary exponent of a positive rational \<open>a\<close>: the \<open>e\<close> with
  \<open>2 ^ e \<le> a < 2 ^ (e + 1)\<close>, found from the bit lengths of numerator and denominator.
\<close>

definition binade :: "rat \<Rightarrow> int" where
  "binade a =
     (case quotient_of a of (p, q) \<Rightarrow>
        let d = bitlen p - bitlen q in if 2 powi d \<le> a then d else d - 1)"

text \<open>The nearest integer, a tie going to the even one.\<close>

definition round_even :: "rat \<Rightarrow> int" where
  "round_even x =
     (let f = \<lfloor>x\<rfloor>; d = x - of_int f
      in if d < 1 / 2 then f
         else if 1 / 2 < d then f + 1
         else if even f then f else f + 1)"

text \<open>
  Rounding to binary64, to nearest with ties to even: 53 significant bits, the least
  exponent \<open>- 1022\<close> (below it the spacing stays \<open>2 ^ - 1074\<close>), and an infinity once the
  rounded magnitude reaches \<open>2 ^ 1024\<close>.
\<close>

definition round_double :: "rat \<Rightarrow> jsnum" where
  "round_double x =
     (if x = 0 then Fin 0
      else
        let a = \<bar>x\<bar>;
            s = max (binade a) (- 1022) - 52;
            r = of_int (round_even (a / 2 powi s)) * 2 powi s
        in if 2 ^ 1024 \<le> r then (if 0 < x then PosInf else NegInf)
           else Fin (if 0 < x then r else - r))"

text \<open>The number that an array holds for an integer written in it.\<close>

definition to_double :: "int \<Rightarrow> jsnum" where
  "to_double n = round_double (of_int n)"

text \<open>The sum \<^verbatim>\<open>a + b\<close> of two numbers.\<close>

fun js_add :: "jsnum \<Rightarrow> jsnum \<Rightarrow> jsnum" where
  "js_add NaN _ = NaN"
| "js_add _ NaN = NaN"
| "js_add PosInf NegInf = NaN"
| "js_add NegInf PosInf = NaN"
| "js_add PosInf _ = PosInf"
| "js_add _ PosInf = PosInf"
| "js_add NegInf _ = NegInf"
| "js_add _ NegInf = NegInf"
| "js_add (Fin a) (Fin b) = round_double (a + b)"

text \<open>
  The quotient \<^verbatim>\<open>s / n\<close> of a number by an array length, which is a non-negative
  integer below \<open>2 ^ 32\<close> and so a double itself: the divisor \<open>0\<close> gives \<^verbatim>\<open>NaN\<close> for
  \<^verbatim>\<open>0 / 0\<close> and an infinity otherwise.
\<close>

fun js_div :: "jsnum \<Rightarrow> nat \<Rightarrow> jsnum" where
  "js_div NaN n = NaN"
| "js_div PosInf n = PosInf"
| "js_div NegInf n = NegInf"
| "js_div (Fin a) n =
     (if n = 0 then (if a = 0 then NaN else if 0 < a then PosInf else NegInf)
      else round_double (a / of_nat n))"

subsection \<open>The tables\<close>

record dimension =
  id_field :: string
  label :: string
  lowDesc :: string
  highDesc :: string

definition RISK_DIMENSIONS :: "dimension list" where
  "RISK_DIMENSIONS =
    [\<lparr>id_field = ''impact-scope'', label = ''Impact Scope'',
       lowDesc = ''1 = Single non-critical component'',
       highDesc = ''5 = Multiple critical business services''\<rparr>,
     \<lparr>id_field = ''complexity'', label = ''Complexity'',
       lowDesc = ''1 = Single config change'',
       highDesc = ''5 = Multi-system orchestrated deployment''\<rparr>,
     \<lparr>id_field = ''reversibility'', label = ''Reversibility'',
       lowDesc = ''1 = Instant automated rollback'',
       highDesc = ''5 = Irreversible (data migration, schema)''\<rparr>,
     \<lparr>id_field = ''testing-confidence'', label = ''Testing Confidence'',
       lowDesc = ''1 = Full automated test coverage'',
       highDesc = ''5 = No test environment available''\<rparr>,
     \<lparr>id_field = ''deployment-history'', label = ''Deployment History'',
       lowDesc = ''1 = Identical change succeeded 10'' @ [CHR 0xC3, CHR 0x97],
       highDesc = ''5 = First-of-its-kind change''\<rparr>,
     \<lparr>id_field = ''timing-sensitivity'', label = ''Timing Sensitivity'',
       lowDesc = ''1 = Off-peak, low-traffic window'',
       highDesc = ''5 = Peak hours, month-end, launch day''\<rparr>,
     \<lparr>id_field = ''dependency-count'', label = ''Dependency Count'',
       lowDesc = ''1 = Zero external dependencies'',
       highDesc = ''5 = 5+ teams / external vendors involved''\<rparr>]"

text \<open>
  The own properties of the object literal \<^verbatim>\<open>APPROVAL_WORKFLOWS\<close>, in the order of the
  source. Two steps hold a character outside ASCII: an em dash (U+2014, bytes E2 80 94)
  in the third Standard step and a rightwards arrow (U+2192, bytes E2 86 92) in the
  fourth Normal-Low step.
\<close>

type_synonym workflow_table = "(string \<times> string list) list"

definition APPROVAL_WORKFLOWS :: workflow_table where
  "APPROVAL_WORKFLOWS =
    [(''Standard'',
       [''Requester triggers pipeline'',
        ''Automated pre-checks (lint, test, scan)'',
        ''Auto-approved '' @ [CHR 0xE2, CHR 0x80, CHR 0x94] @ '' change model match verified'',
        ''Deploy'',
        ''Automated validation'',
        ''Change record logged automatically'']),
     (''Normal-Low'',
       [''Requester submits RFC'',
        ''Automated risk scoring'',
        ''Peer review (1 reviewer, async)'',
        ''Approved '' @ [CHR 0xE2, CHR 0x86, CHR 0x92] @ '' Scheduled in change calendar'',
        ''Deploy in approved window'',
        ''Validation'',
        ''Close RFC'']),
     (''Normal-Medium'',
       [''Requester submits RFC'',
        ''Automated risk scoring'',
        ''Technical review (architect or senior engineer)'',
        ''Change authority approval'',
        ''Scheduled in change calendar (with conflict check)'',
        ''Deploy with monitoring'',
        ''Validation + brief PIR'',
        ''Close RFC'']),
     (''Normal-High'',
       [''Requester submits RFC'',
        ''Automated risk scoring'',
        ''Technical review + security review'',
        ''Pre-CAB: documentation completeness check'',
        ''CAB review (weekly cadence or ad-hoc)'',
        ''Senior management sign-off'',
        ''Scheduled with communication plan'',
        ''Deploy with war-room / bridge call'',
        ''Validation + full PIR'',
        ''Close RFC'']),
     (''Emergency'',
       [''Incident declared'',
        ''Emergency RFC created (minimal fields)'',
        ''ECAB approval (phone/chat, 2 approvers minimum)'',
        ''Implement immediately'',
        ''Validate service restored'',
        ''Retrospective RFC completion (within 48 h)'',
        ''Mandatory PIR''])]"

text \<open>
  An object literal inherits from \<^verbatim>\<open>Object.prototype\<close>; these are the keys of the
  members it inherits (functions, and for \<^verbatim>\<open>__proto__\<close> the prototype object itself).
\<close>

definition Object_prototype :: "string list" where
  "Object_prototype =
    [''constructor'', ''__defineGetter__'', ''__defineSetter__'', ''hasOwnProperty'',
     ''__lookupGetter__'', ''__lookupSetter__'', ''isPrototypeOf'',
     ''propertyIsEnumerable'', ''toString'', ''valueOf'', ''__proto__'',
     ''toLocaleString'']"

text \<open>
  The property access \<^verbatim>\<open>table[key]\<close>: the own property when there is one, else the
  inherited member, else \<^verbatim>\<open>undefined\<close> (the value \<open>None\<close>).
\<close>

definition Get :: "workflow_table \<Rightarrow> string \<Rightarrow> obj option" where
  "Get tbl key =
     (case map_of tbl key of
        Some steps \<Rightarrow> Some (Arr steps)
      | None \<Rightarrow> (if key \<in> set Object_prototype then Some (Builtin key) else None))"

text \<open>
  The expression \<^verbatim>\<open>v || d\<close> for a looked-up \<open>v\<close>: \<^verbatim>\<open>undefined\<close> is falsy and gives
  \<open>d\<close>; every object, an empty array included, is truthy and is the result itself.
\<close>

definition or_else :: "obj option \<Rightarrow> obj \<Rightarrow> obj" where
  "or_else v d = (case v of None \<Rightarrow> d | Some x \<Rightarrow> x)"

subsection \<open>The three functions\<close>

text \<open>\<^verbatim>\<open>classifyChange(serviceDown, preApproved)\<close>; \<^verbatim>\<open>===\<close> is equality without conversion.\<close>

definition classifyChange :: "prim \<Rightarrow> prim \<Rightarrow> string" where
  "classifyChange serviceDown preApproved =
     (if serviceDown = JStr ''yes'' then ''Emergency''
      else if preApproved = JStr ''yes'' then ''Standard''
      else ''Normal'')"

text \<open>
  \<^verbatim>\<open>assessRisk(scores)\<close> on an array written with integers, of any length. The
  \<^verbatim>\<open>reduce\<close> adds doubles from the left, starting from \<open>0\<close>.
\<close>

record assessment =
  score :: jsnum
  tier :: string

definition assessRisk :: "int list \<Rightarrow> assessment" where
  "assessRisk scores =
     (let sum = foldl (\<lambda>acc val. js_add acc val) (Fin 0) (map to_double scores);
          score = js_div sum (length scores);
          tier = (if js_le score (Fin 2) then ''Low''
                  else if js_le score (Fin 3.5) then ''Medium''
                  else ''High'')
      in \<lparr>score = score, tier = tier\<rparr>)"

text \<open>
  \<^verbatim>\<open>getApprovalPath(changeType, riskTier)\<close> by contents. The first argument of the
  model is what the object bound to the identifier \<^verbatim>\<open>APPROVAL_WORKFLOWS\<close> holds, each
  key with the contents of its array; the heap model further down keeps the references.
  No statement of the function throws.
\<close>

definition getApprovalPath :: "workflow_table \<Rightarrow> prim \<Rightarrow> prim \<Rightarrow> obj completion" where
  "getApprovalPath tbl changeType riskTier =
     (if changeType = JStr ''Normal''
      then Returns (or_else (Get tbl (''Normal-'' @ ToString riskTier)) (Arr []))
      else Returns (or_else (Get tbl (ToString changeType)) (Arr [])))"

text \<open>The key that a call of \<^verbatim>\<open>getApprovalPath\<close> looks up in the table.\<close>

definition lookup_key :: "prim \<Rightarrow> prim \<Rightarrow> string" where
  "lookup_key changeType riskTier =
     (if changeType = JStr ''Normal'' then ''Normal-'' @ ToString riskTier
      else ToString changeType)"

text \<open>The arithmetic mean of a sequence of integers, as the specification words it.\<close>

definition mean :: "int list \<Rightarrow> rat" where
  "mean xs = of_int (sum_list xs) / of_nat (length xs)"

subsection \<open>The module on the heap\<close>

text \<open>
  Arrays are objects: a variable or a property holds a reference to an array, and two
  references to one array see each other's writes. The heap below keeps that apart from
  the contents. It holds what the two top-level \<^verbatim>\<open>const\<close> declarations build: the
  dimension table, the own properties of the object \<^verbatim>\<open>APPROVAL_WORKFLOWS\<close> (each a key
  with a reference to an array) and the arrays themselves, an address being a position
  in the list of arrays.
\<close>

type_synonym addr = nat

datatype ref = ArrayRef addr | BuiltinRef string

record heap =
  dimensions :: "dimension list"
  workflows :: "(string \<times> addr) list"
  arrays :: "string list list"

text \<open>The heap after the module is loaded: one array for each row of the table.\<close>

definition module_heap :: heap where
  "module_heap =
     \<lparr>dimensions = RISK_DIMENSIONS,
      workflows = zip (map fst APPROVAL_WORKFLOWS) [0..<length APPROVAL_WORKFLOWS],
      arrays = map snd APPROVAL_WORKFLOWS\<rparr>"

text \<open>
  The property access \<^verbatim>\<open>APPROVAL_WORKFLOWS[key]\<close> on the heap: it yields the reference
  that the property holds, not a copy of the array.
\<close>

definition Get_ref :: "heap \<Rightarrow> string \<Rightarrow> ref option" where
  "Get_ref h key =
     (case map_of (workflows h) key of
        Some a \<Rightarrow> Some (ArrayRef a)
      | None \<Rightarrow> (if key \<in> set Object_prototype then Some (BuiltinRef key) else None))"

text \<open>
  The expression \<^verbatim>\<open>v || []\<close> on the heap: the array literal is evaluated only when
  \<open>v\<close> is \<^verbatim>\<open>undefined\<close>, and it then allocates a new empty array.
\<close>

definition or_new_array :: "heap \<Rightarrow> ref option \<Rightarrow> ref \<times> heap" where
  "or_new_array h v =
     (case v of
        Some r \<Rightarrow> (r, h)
      | None \<Rightarrow> (ArrayRef (length (arrays h)), h\<lparr>arrays := arrays h @ [[]]\<rparr>))"

text \<open>\<^verbatim>\<open>getApprovalPath(changeType, riskTier)\<close> on the heap, statement by statement.\<close>

definition getApprovalPath_heap :: "heap \<Rightarrow> prim \<Rightarrow> prim \<Rightarrow> ref completion \<times> heap" where
  "getApprovalPath_heap h changeType riskTier =
     (if changeType = JStr ''Normal''
      then (case or_new_array h (Get_ref h (''Normal-'' @ ToString riskTier)) of
              (r, h') \<Rightarrow> (Returns r, h'))
      else (case or_new_array h (Get_ref h (ToString changeType)) of
              (r, h') \<Rightarrow> (Returns r, h')))"

text \<open>
  A call of one of the three functions, and what it gives back. The bodies of
  \<^verbatim>\<open>classifyChange\<close> and \<^verbatim>\<open>assessRisk\<close> name no variable outside their own scope; the
  object that \<^verbatim>\<open>assessRisk\<close> returns is new at every call and is given by its contents.
\<close>

datatype call =
    ClassifyChange prim prim
  | AssessRisk "int list"
  | GetApprovalPath prim prim

datatype 'r outcome =
    Category string
  | Assessment assessment
  | Path "'r completion"

fun invoke :: "heap \<Rightarrow> call \<Rightarrow> ref outcome \<times> heap" where
  "invoke h (ClassifyChange serviceDown preApproved) =
     (Category (classifyChange serviceDown preApproved), h)"
| "invoke h (AssessRisk scores) = (Assessment (assessRisk scores), h)"
| "invoke h (GetApprovalPath changeType riskTier) =
     (case getApprovalPath_heap h changeType riskTier of (r, h') \<Rightarrow> (Path r, h'))"

text \<open>What a caller sees behind a reference, and in an outcome, on a given heap.\<close>

fun deref :: "heap \<Rightarrow> ref \<Rightarrow> obj option" where
  "deref h (ArrayRef a) = (if a < length (arrays h) then Some (Arr (arrays h ! a)) else None)"
| "deref h (BuiltinRef key) = Some (Builtin key)"

fun contents :: "heap \<Rightarrow> ref outcome \<Rightarrow> obj outcome option" where
  "contents h (Category c) = Some (Category c)"
| "contents h (Assessment a) = Some (Assessment a)"
| "contents h (Path (Returns r)) = map_option (\<lambda>v. Path (Returns v)) (deref h r)"
| "contents h (Path (Throws e)) = Some (Path (Throws e))"

text \<open>
  What the callers of the module do: they call the three functions, and they may write
  to an array they hold a reference to, as with \<^verbatim>\<open>steps.push(x)\<close>. No caller in the
  source file writes to one.
\<close>

datatype action = Call call | Push addr string

fun perform :: "heap \<Rightarrow> action \<Rightarrow> obj outcome option \<times> heap" where
  "perform h (Call c) = (case invoke h c of (out, h') \<Rightarrow> (contents h' out, h'))"
| "perform h (Push a x) =
     (None, if a < length (arrays h) then h\<lparr>arrays := (arrays h)[a := arrays h ! a @ [x]]\<rparr> else h)"

fun trace :: "heap \<Rightarrow> action list \<Rightarrow> obj outcome option list \<times> heap" where
  "trace h [] = ([], h)"
| "trace h (a # as) =
     (case perform h a of (out, h') \<Rightarrow>
        (case trace h' as of (outs, h'') \<Rightarrow> (out # outs, h'')))"

text \<open>
  A heap is well formed when every reference in the workflow table is to an array on the
  heap; the table of a heap gives each key the contents of its array.
\<close>

definition wf_heap :: "heap \<Rightarrow> bool" where
  "wf_heap h = list_all (\<lambda>(key, a). a < length (arrays h)) (workflows h)"

definition table_of :: "heap \<Rightarrow> workflow_table" where
  "table_of h = map (\<lambda>(key, a). (key, arrays h ! a)) (workflows h)"

text \<open>The answer to a call from the contents of the table alone.\<close>

fun answer :: "workflow_table \<Rightarrow> call \<Rightarrow> obj outcome" where
  "answer tbl (ClassifyChange serviceDown preApproved) =
     Category (classifyChange serviceDown preApproved)"
| "answer tbl (AssessRisk scores) = Assessment (assessRisk scores)"
| "answer tbl (GetApprovalPath changeType riskTier) =
     Path (getApprovalPath tbl changeType riskTier)"

section \<open>Properties\<close>

subsection \<open>Auxiliary facts\<close>

lemma bitlen_powi_bounds:
  assumes "0 < p"
  shows "(2::rat) powi (bitlen p - 1) \<le> of_int p" and "of_int p < (2::rat) powi bitlen p"
proof -
  from assms have b: "1 \<le> bitlen p"
    using bitlen_eq_zero_iff [of p] bitlen_nonneg [of p] by linarith
  from bitlen_bounds [OF assms]
  have lo: "2 ^ nat (bitlen p - 1) \<le> p" and hi: "p < 2 ^ nat (bitlen p)"
    by simp_all
  have "(2::rat) powi (bitlen p - 1) = of_int (2 ^ nat (bitlen p - 1))"
    using b by (simp add: power_int_def)
  also have "\<dots> \<le> of_int p"
    using lo by (simp only: of_int_le_iff)
  finally show "(2::rat) powi (bitlen p - 1) \<le> of_int p" .
  have "(of_int p :: rat) < of_int (2 ^ nat (bitlen p))"
    using hi by (simp only: of_int_less_iff)
  also have "\<dots> = 2 powi bitlen p"
    using b by (simp add: power_int_def)
  finally show "of_int p < (2::rat) powi bitlen p" .
qed

lemma binade_bounds:
  assumes "0 < a"
  shows "2 powi binade a \<le> a \<and> a < 2 powi (binade a + 1)"
proof -
  obtain p q where pq: "quotient_of a = (p, q)"
    by (cases "quotient_of a")
  then have q: "0 < q" and a: "a = of_int p / of_int q"
    by (auto dest: quotient_of_denom_pos quotient_of_div)
  with assms have p: "0 < p"
    by (simp add: zero_less_divide_iff)
  define d where "d = bitlen p - bitlen q"
  note P = bitlen_powi_bounds [OF p] and Q = bitlen_powi_bounds [OF q]
  have qpos: "(0::rat) < of_int q" and ppos: "(0::rat) < of_int p"
    using p q by simp_all
  have "a < 2 powi bitlen p / 2 powi (bitlen q - 1)"
    unfolding a by (rule frac_less) (use P Q ppos in simp_all)
  also have "\<dots> = 2 powi (d + 1)"
    by (simp add: d_def power_int_diff [symmetric] algebra_simps)
  finally have up: "a < 2 powi (d + 1)" .
  have "2 powi (bitlen p - 1) / 2 powi bitlen q < a"
    unfolding a by (rule frac_less2) (use P Q qpos in simp_all)
  moreover have "2 powi (bitlen p - 1) / 2 powi bitlen q = (2::rat) powi (d - 1)"
    by (simp add: d_def power_int_diff [symmetric] algebra_simps)
  ultimately have lo: "2 powi (d - 1) < a"
    by simp
  have b: "binade a = (if 2 powi d \<le> a then d else d - 1)"
    by (simp add: binade_def pq d_def Let_def)
  show ?thesis
  proof (cases "2 powi d \<le> a")
    case True
    with up b show ?thesis by simp
  next
    case False
    with lo b show ?thesis by simp
  qed
qed

lemma binade_unique:
  assumes "0 < a" and lo: "2 powi e \<le> a" and hi: "a < 2 powi (e + 1)"
  shows "binade a = e"
proof (rule ccontr)
  assume ne: "binade a \<noteq> e"
  from binade_bounds [OF \<open>0 < a\<close>]
  have blo: "2 powi binade a \<le> a" and bhi: "a < 2 powi (binade a + 1)"
    by simp_all
  show False
  proof (cases "binade a < e")
    case True
    then have "(2::rat) powi (binade a + 1) \<le> 2 powi e"
      by (intro power_int_increasing) simp_all
    with bhi lo show False by simp
  next
    case False
    with ne have "e + 1 \<le> binade a" by simp
    then have "(2::rat) powi (e + 1) \<le> 2 powi binade a"
      by (intro power_int_increasing) simp_all
    with hi blo show False by simp
  qed
qed

lemma round_even_of_int: "round_even (of_int k) = k"
  by (simp add: round_even_def)

lemma round_even_ge:
  assumes "of_int k \<le> x"
  shows "k \<le> round_even x"
proof -
  from assms have "k \<le> \<lfloor>x\<rfloor>"
    by (simp only: le_floor_iff)
  then show ?thesis
    by (simp add: round_even_def Let_def)
qed

lemma round_even_le:
  assumes "x \<le> of_int k"
  shows "round_even x \<le> k"
proof -
  have f: "\<lfloor>x\<rfloor> \<le> k"
    using assms by (simp add: floor_le_iff)
  have "\<lfloor>x\<rfloor> + 1 \<le> k" if "x - of_int \<lfloor>x\<rfloor> \<noteq> 0"
  proof -
    from that have "of_int \<lfloor>x\<rfloor> < x"
      using of_int_floor_le [of x] by linarith
    with assms have "(of_int \<lfloor>x\<rfloor> :: rat) < of_int k"
      by linarith
    then show ?thesis by simp
  qed
  with f show ?thesis
    by (auto simp: round_even_def Let_def)
qed

lemma round_even_nearest:
  assumes "\<bar>x - of_int m\<bar> < 1 / 2"
  shows "round_even x = m"
proof -
  have fl: "of_int \<lfloor>x\<rfloor> \<le> x" "x < of_int \<lfloor>x\<rfloor> + 1"
    by linarith+
  consider "\<lfloor>x\<rfloor> = m" | "\<lfloor>x\<rfloor> = m - 1"
  proof -
    have "of_int m - 1 / 2 < x" "x < of_int m + 1 / 2"
      using assms by linarith+
    with fl have "(of_int m :: rat) - 1 < of_int \<lfloor>x\<rfloor> + 1"
      and "(of_int \<lfloor>x\<rfloor> :: rat) < of_int m + 1"
      by linarith+
    then have "(of_int (m - 1) :: rat) < of_int (\<lfloor>x\<rfloor> + 1)"
      and "(of_int \<lfloor>x\<rfloor> :: rat) < of_int (m + 1)"
      by simp_all
    then have "m - 1 < \<lfloor>x\<rfloor> + 1" "\<lfloor>x\<rfloor> < m + 1"
      by (simp_all only: of_int_less_iff)
    then have "\<lfloor>x\<rfloor> = m \<or> \<lfloor>x\<rfloor> = m - 1" by linarith
    then show ?thesis using that by blast
  qed
  then show ?thesis
  proof cases
    case 1
    with assms have "x - of_int \<lfloor>x\<rfloor> < 1 / 2" by linarith
    with 1 show ?thesis by (simp add: round_even_def Let_def)
  next
    case 2
    then have "(of_int \<lfloor>x\<rfloor> :: rat) = of_int m - 1"
      by simp
    with assms have "1 / 2 < x - of_int \<lfloor>x\<rfloor>"
      by linarith
    with 2 show ?thesis
      by (simp add: round_even_def Let_def)
  qed
qed


lemma round_double_pos:
  assumes x: "0 < x" and lo: "2 powi e \<le> x" and hi: "x < 2 powi (e + 1)"
    and e: "- 1022 \<le> e" "e \<le> 1022"
  shows "round_double x = Fin (of_int (round_even (x / 2 powi (e - 52))) * 2 powi (e - 52))"
proof -
  have b: "binade x = e"
    using x lo hi by (rule binade_unique)
  define m where "m = round_even (x / 2 powi (e - 52))"
  have pos: "(0::rat) < 2 powi (e - 52)"
    by (simp add: zero_less_power_int)
  have "x / 2 powi (e - 52) < 2 powi (e + 1) / 2 powi (e - 52)"
    using hi pos by (simp add: divide_strict_right_mono)
  also have "\<dots> = 2 powi 53"
    by (simp add: power_int_diff [symmetric])
  finally have "x / 2 powi (e - 52) \<le> of_int (2 ^ 53)"
    by simp
  then have m: "m \<le> 2 ^ 53"
    unfolding m_def by (rule round_even_le)
  have "(of_int m :: rat) \<le> of_int (2 ^ 53)"
    using m by (simp only: of_int_le_iff)
  from mult_right_mono [OF this less_imp_le [OF pos]]
  have "of_int m * 2 powi (e - 52) \<le> (of_int (2 ^ 53) :: rat) * 2 powi (e - 52)" .
  also have "\<dots> = 2 powi (e + 1)"
  proof -
    have "e + 1 = 53 + (e - 52)"
      by simp
    then have "(2::rat) powi (e + 1) = 2 powi (53 + (e - 52))"
      by (rule arg_cong)
    also have "\<dots> = 2 powi 53 * 2 powi (e - 52)"
      by (rule power_int_add) simp
    finally show ?thesis by simp
  qed
  also have "\<dots> \<le> 2 powi 1023"
    using e by (intro power_int_increasing) simp_all
  also have "\<dots> < 2 ^ 1024"
    by simp
  finally have nov:
    "((2::rat) ^ 1024 \<le> of_int (round_even (x / 2 powi (e - 52))) * 2 powi (e - 52)) = False"
    by (simp add: m_def)
  have x': "(x = 0) = False" "(0 < x) = True" "\<bar>x\<bar> = x"
    using x by simp_all
  have mx: "max e (- 1022) = e"
    using e by simp
  show ?thesis
    by (simp only: round_double_def Let_def x' b mx nov if_False if_True)
qed

lemma round_double_nearest:
  assumes "0 < x" and "2 powi e \<le> x" and "x < 2 powi (e + 1)"
    and "- 1022 \<le> e" and "e \<le> 1022"
    and "\<bar>x / 2 powi (e - 52) - of_int m\<bar> < 1 / 2"
  shows "round_double x = Fin (of_int m * 2 powi (e - 52))"
  using round_double_pos [OF assms(1-5)] round_even_nearest [OF assms(6)] by simp

lemma round_double_between_ints:
  assumes lo: "1 \<le> lo" and q1: "of_int lo \<le> q" and q2: "q \<le> of_int hi" and hi: "hi < 2 ^ 53"
  shows "\<exists>r. round_double q = Fin r \<and> of_int lo \<le> r \<and> r \<le> of_int hi"
proof -
  from lo q1 have q1': "1 \<le> q"
    by (meson of_int_1_le_iff order_trans)
  then have q: "0 < q"
    by simp
  define e where "e = binade q"
  from binade_bounds [OF q] have blo: "2 powi e \<le> q" and bhi: "q < 2 powi (e + 1)"
    by (simp_all add: e_def)
  have e0: "0 \<le> e"
  proof (rule ccontr)
    assume "\<not> 0 \<le> e"
    then have "(2::rat) powi (e + 1) \<le> 2 powi 0"
      by (intro power_int_increasing) simp_all
    with bhi q1' show False by simp
  qed
  have e52: "e \<le> 52"
  proof (rule ccontr)
    assume "\<not> e \<le> 52"
    then have "(2::rat) powi 53 \<le> 2 powi e"
      by (intro power_int_increasing) simp_all
    with blo q2 have "(2::rat) ^ 53 \<le> of_int hi"
      by simp
    then have "(of_int (2 ^ 53) :: rat) \<le> of_int hi"
      by simp
    then have "2 ^ 53 \<le> hi"
      by (simp only: of_int_le_iff)
    with hi show False by simp
  qed
  define n where "n = nat (52 - e)"
  have "e - 52 = - int n"
    using e52 by (simp add: n_def)
  then have s: "(2::rat) powi (e - 52) = 1 / 2 ^ n"
    by (simp add: power_int_minus inverse_eq_divide)
  define m where "m = round_even (q / 2 powi (e - 52))"
  have arg: "q / 2 powi (e - 52) = q * 2 ^ n"
    by (simp add: s)
  have "of_int (lo * 2 ^ n) \<le> q * 2 ^ n"
    using q1 by simp
  then have mlo: "lo * 2 ^ n \<le> m"
    unfolding m_def arg by (rule round_even_ge)
  have "q * 2 ^ n \<le> of_int (hi * 2 ^ n)"
    using q2 by simp
  then have mhi: "m \<le> hi * 2 ^ n"
    unfolding m_def arg by (rule round_even_le)
  have r: "round_double q = Fin (of_int m * 2 powi (e - 52))"
    unfolding m_def using q blo bhi by (rule round_double_pos) (use e0 e52 in simp_all)
  have "(of_int (lo * 2 ^ n) :: rat) \<le> of_int m"
    using mlo by (simp only: of_int_le_iff)
  then have a: "(of_int lo :: rat) \<le> of_int m * 2 powi (e - 52)"
    by (simp add: s pos_le_divide_eq)
  have "(of_int m :: rat) \<le> of_int (hi * 2 ^ n)"
    using mhi by (simp only: of_int_le_iff)
  then have b: "of_int m * 2 powi (e - 52) \<le> (of_int hi :: rat)"
    by (simp add: s pos_divide_le_eq)
  from r a b show ?thesis
    by blast
qed

lemma round_double_of_int:
  assumes "0 \<le> n" and "n < 2 ^ 53"
  shows "round_double (of_int n) = Fin (of_int n)"
proof (cases "n = 0")
  case True
  then show ?thesis by (simp add: round_double_def)
next
  case False
  with assms have "1 \<le> n" by simp
  from round_double_between_ints [OF this order_refl order_refl assms(2)]
  show ?thesis by auto
qed

lemma js_sum_exact:
  "\<forall>x\<in>set xs. 0 \<le> x \<Longrightarrow> 0 \<le> a \<Longrightarrow> a + sum_list xs < 2 ^ 53 \<Longrightarrow>
     foldl (\<lambda>acc val. js_add acc val) (Fin (of_int a)) (map to_double xs) =
       Fin (of_int (a + sum_list xs))"
proof (induction xs arbitrary: a)
  case Nil
  then show ?case by simp
next
  case (Cons x xs)
  then have x: "0 \<le> x" and rest: "0 \<le> sum_list xs"
    by (simp_all add: sum_list_nonneg)
  with Cons.prems have small: "x < 2 ^ 53" "a + x < 2 ^ 53"
    by simp_all
  have "js_add (Fin (of_int a)) (to_double x) = round_double (of_int (a + x))"
    using x small by (simp add: to_double_def round_double_of_int)
  also have "\<dots> = Fin (of_int (a + x))"
    using x Cons.prems small by (intro round_double_of_int) simp_all
  finally have step: "js_add (Fin (of_int a)) (to_double x) = Fin (of_int (a + x))" .
  have "foldl (\<lambda>acc val. js_add acc val) (Fin (of_int (a + x))) (map to_double xs) =
      Fin (of_int (a + x + sum_list xs))"
    using Cons.prems x by (intro Cons.IH) (simp_all add: add.assoc)
  with step show ?case
    by (simp add: add.assoc)
qed

lemma assessRisk_exact_sum:
  assumes "\<forall>x\<in>set scores. 0 \<le> x" and "sum_list scores < 2 ^ 53"
  shows "assessRisk scores =
     (let score = js_div (Fin (of_int (sum_list scores))) (length scores);
          tier = (if js_le score (Fin 2) then ''Low''
                  else if js_le score (Fin 3.5) then ''Medium''
                  else ''High'')
      in \<lparr>score = score, tier = tier\<rparr>)"
  using js_sum_exact [of scores 0] assms by (simp add: assessRisk_def)

lemma round_double_small_ints:
  "round_double 1 = Fin 1" "round_double 2 = Fin 2" "round_double 5 = Fin 5"
  using round_double_of_int [of 1] round_double_of_int [of 2] round_double_of_int [of 5]
  by simp_all

lemma round_double_7_2: "round_double (7 / 2) = Fin (7 / 2)"
  using round_double_nearest [of "7 / 2" 1 7881299347898368]
  by (simp add: power_int_minus)

lemma round_double_25_7: "round_double (25 / 7) = Fin (8042142191733029 / 2251799813685248)"
  using round_double_nearest [of "25 / 7" 1 8042142191733029]
  by (simp add: power_int_minus)

lemma round_double_18_7: "round_double (18 / 7) = Fin (5790342378047781 / 2251799813685248)"
  using round_double_nearest [of "18 / 7" 1 5790342378047781]
  by (simp add: power_int_minus)

lemma sum_list_bounds:
  "\<forall>x\<in>set xs. lo \<le> x \<and> x \<le> hi \<Longrightarrow>
     lo * int (length xs) \<le> sum_list xs \<and> sum_list xs \<le> hi * int (length xs)"
  by (induction xs) (auto simp: algebra_simps)

lemma map_of_table_of:
  "map_of (table_of h) key = map_option (\<lambda>a. arrays h ! a) (map_of (workflows h) key)"
  by (simp add: table_of_def map_of_map)

lemma wf_heap_lookup:
  assumes "wf_heap h" and "map_of (workflows h) key = Some a"
  shows "a < length (arrays h)"
proof -
  from assms(2) have "(key, a) \<in> set (workflows h)"
    by (rule map_of_SomeD)
  with assms(1) show ?thesis
    by (auto simp: wf_heap_def list_all_iff)
qed

lemma or_new_array_frame:
  assumes "or_new_array h v = (r, h')"
  shows "workflows h' = workflows h \<and> dimensions h' = dimensions h \<and>
         take (length (arrays h)) (arrays h') = arrays h"
  using assms by (auto simp: or_new_array_def split: option.splits)

lemma or_new_array_Get_ref:
  assumes wf: "wf_heap h" and res: "or_new_array h (Get_ref h key) = (r, h')"
  shows "deref h' r = Some (or_else (Get (table_of h) key) (Arr [])) \<and>
         wf_heap h' \<and> table_of h' = table_of h"
proof (cases "map_of (workflows h) key")
  case (Some a)
  with wf have "a < length (arrays h)"
    by (simp add: wf_heap_lookup)
  with Some res wf show ?thesis
    by (auto simp: or_new_array_def Get_ref_def Get_def or_else_def map_of_table_of)
next
  case None
  show ?thesis
  proof (cases "key \<in> set Object_prototype")
    case True
    with None res wf show ?thesis
      by (auto simp: or_new_array_def Get_ref_def Get_def or_else_def map_of_table_of)
  next
    case False
    with None res have r: "r = ArrayRef (length (arrays h))"
      and h': "h' = h\<lparr>arrays := arrays h @ [[]]\<rparr>"
      by (auto simp: or_new_array_def Get_ref_def)
    have old: "(arrays h @ [[]]) ! a = arrays h ! a" if "(k, a) \<in> set (workflows h)" for k a
      using wf that by (auto simp: wf_heap_def list_all_iff nth_append)
    have "table_of h' = table_of h"
      unfolding table_of_def h' using old by (auto intro!: map_cong)
    moreover have "wf_heap h'"
      using wf by (auto simp: wf_heap_def h' list_all_iff)
    moreover have "deref h' r = Some (or_else (Get (table_of h) key) (Arr []))"
      using None False by (simp add: r h' Get_def or_else_def map_of_table_of)
    ultimately show ?thesis
      by simp
  qed
qed

lemma invoke_frame:
  "workflows (snd (invoke h c)) = workflows h \<and>
   dimensions (snd (invoke h c)) = dimensions h \<and>
   take (length (arrays h)) (arrays (snd (invoke h c))) = arrays h"
proof (cases c)
  case (GetApprovalPath changeType riskTier)
  show ?thesis
  proof (cases "changeType = JStr ''Normal''")
    case True
    obtain r h' where "or_new_array h (Get_ref h (''Normal-'' @ ToString riskTier)) = (r, h')"
      by (cases "or_new_array h (Get_ref h (''Normal-'' @ ToString riskTier))")
    with or_new_array_frame [OF this] True GetApprovalPath show ?thesis
      by (simp add: getApprovalPath_heap_def)
  next
    case False
    obtain r h' where "or_new_array h (Get_ref h (ToString changeType)) = (r, h')"
      by (cases "or_new_array h (Get_ref h (ToString changeType))")
    with or_new_array_frame [OF this] False GetApprovalPath show ?thesis
      by (simp add: getApprovalPath_heap_def)
  qed
qed simp_all

lemma invoke_contents:
  assumes wf: "wf_heap h"
  shows "contents (snd (invoke h c)) (fst (invoke h c)) = Some (answer (table_of h) c) \<and>
         wf_heap (snd (invoke h c)) \<and> table_of (snd (invoke h c)) = table_of h"
proof (cases c)
  case (GetApprovalPath changeType riskTier)
  show ?thesis
  proof (cases "changeType = JStr ''Normal''")
    case True
    obtain r h' where "or_new_array h (Get_ref h (''Normal-'' @ ToString riskTier)) = (r, h')"
      by (cases "or_new_array h (Get_ref h (''Normal-'' @ ToString riskTier))")
    with or_new_array_Get_ref [OF wf this] True GetApprovalPath show ?thesis
      by (simp add: getApprovalPath_heap_def getApprovalPath_def)
  next
    case False
    obtain r h' where "or_new_array h (Get_ref h (ToString changeType)) = (r, h')"
      by (cases "or_new_array h (Get_ref h (ToString changeType))")
    with or_new_array_Get_ref [OF wf this] False GetApprovalPath show ?thesis
      by (simp add: getApprovalPath_heap_def getApprovalPath_def)
  qed
qed (use wf in simp_all)

lemma trace_calls:
  "wf_heap h \<Longrightarrow>
     fst (trace h (map Call cs)) = map (\<lambda>c. Some (answer (table_of h) c)) cs"
proof (induction cs arbitrary: h)
  case Nil
  show ?case by simp
next
  case (Cons c cs)
  obtain out h' where i: "invoke h c = (out, h')"
    by (cases "invoke h c")
  with invoke_contents [OF Cons.prems, of c]
  have out: "contents h' out = Some (answer (table_of h) c)"
    and wf': "wf_heap h'" and tbl: "table_of h' = table_of h"
    by simp_all
  obtain outs h'' where t: "trace h' (map Call cs) = (outs, h'')"
    by (cases "trace h' (map Call cs)")
  with Cons.IH [OF wf'] tbl
  have "outs = map (\<lambda>c. Some (answer (table_of h) c)) cs"
    by simp
  with i out t show ?case
    by simp
qed

lemma module_heap_table:
  "wf_heap module_heap \<and> table_of module_heap = APPROVAL_WORKFLOWS"
  by (simp add: wf_heap_def table_of_def module_heap_def APPROVAL_WORKFLOWS_def upt_rec)

subsection \<open>classifyChange\<close>

text \<open>
  Claim C3. For every pair of answers, \<^verbatim>\<open>classifyChange\<close> follows a two-level tree in
  this order: a \<^verbatim>\<open>serviceDown\<close> that is affirmative (the string \<^verbatim>\<open>'yes'\<close>) gives
  \<^verbatim>\<open>'Emergency'\<close> whatever \<^verbatim>\<open>preApproved\<close> is; otherwise an affirmative
  \<^verbatim>\<open>preApproved\<close> gives \<^verbatim>\<open>'Standard'\<close>; otherwise the result is \<^verbatim>\<open>'Normal'\<close>.
\<close>

theorem classifyChange_decision_tree:
  "(serviceDown = JStr ''yes'' \<longrightarrow>
      classifyChange serviceDown preApproved = ''Emergency'') \<and>
   (serviceDown \<noteq> JStr ''yes'' \<and> preApproved = JStr ''yes'' \<longrightarrow>
      classifyChange serviceDown preApproved = ''Standard'') \<and>
   (serviceDown \<noteq> JStr ''yes'' \<and> preApproved \<noteq> JStr ''yes'' \<longrightarrow>
      classifyChange serviceDown preApproved = ''Normal'')"
  by (simp add: classifyChange_def)

text \<open>The four combinations of the answers \<^verbatim>\<open>'yes'\<close> and \<^verbatim>\<open>'no'\<close>.\<close>

theorem classifyChange_decision_tree_witness:
  "classifyChange (JStr ''yes'') (JStr ''yes'') = ''Emergency'' \<and>
   classifyChange (JStr ''yes'') (JStr ''no'') = ''Emergency'' \<and>
   classifyChange (JStr ''no'') (JStr ''yes'') = ''Standard'' \<and>
   classifyChange (JStr ''no'') (JStr ''no'') = ''Normal''"
  using classifyChange_decision_tree [of "JStr ''yes''" "JStr ''yes''"]
    classifyChange_decision_tree [of "JStr ''yes''" "JStr ''no''"]
    classifyChange_decision_tree [of "JStr ''no''" "JStr ''yes''"]
    classifyChange_decision_tree [of "JStr ''no''" "JStr ''no''"]
  by simp

text \<open>
  Claim C10. \<^verbatim>\<open>classifyChange\<close> returns one of \<^verbatim>\<open>'Standard'\<close>, \<^verbatim>\<open>'Normal'\<close>,
  \<^verbatim>\<open>'Emergency'\<close> on every pair of arguments, and it returns \<^verbatim>\<open>'Emergency'\<close> exactly
  when \<^verbatim>\<open>serviceDown\<close> is the string \<^verbatim>\<open>'yes'\<close>: the values \<^verbatim>\<open>'Yes'\<close>, \<^verbatim>\<open>'YES'\<close>,
  \<^verbatim>\<open>true\<close> and \<^verbatim>\<open>undefined\<close> never give \<^verbatim>\<open>'Emergency'\<close>.
\<close>

theorem classifyChange_total_exact_yes:
  "classifyChange serviceDown preApproved \<in> {''Standard'', ''Normal'', ''Emergency''} \<and>
   (classifyChange serviceDown preApproved = ''Emergency'') = (serviceDown = JStr ''yes'') \<and>
   classifyChange (JStr ''Yes'') preApproved \<noteq> ''Emergency'' \<and>
   classifyChange (JStr ''YES'') preApproved \<noteq> ''Emergency'' \<and>
   classifyChange (JBool True) preApproved \<noteq> ''Emergency'' \<and>
   classifyChange JUndefined preApproved \<noteq> ''Emergency''"
  by (simp add: classifyChange_def)

subsection \<open>assessRisk\<close>

text \<open>
  Claim C2. For every array of scores, the tier that \<^verbatim>\<open>assessRisk\<close> returns follows from
  the score it returns: a score \<open>\<le> 2.0\<close> gives \<^verbatim>\<open>'Low'\<close>, a score with
  \<open>2.0 < score \<le> 3.5\<close> gives \<^verbatim>\<open>'Medium'\<close>, a score \<open>> 3.5\<close> gives \<^verbatim>\<open>'High'\<close>; so
  \<open>2.0\<close> itself is Low and \<open>3.5\<close> itself is Medium.
\<close>

theorem assessRisk_tier_intervals:
  "(js_le (score (assessRisk scores)) (Fin 2) \<longrightarrow>
      tier (assessRisk scores) = ''Low'') \<and>
   (js_gt (score (assessRisk scores)) (Fin 2) \<and>
    js_le (score (assessRisk scores)) (Fin 3.5) \<longrightarrow>
      tier (assessRisk scores) = ''Medium'') \<and>
   (js_gt (score (assessRisk scores)) (Fin 3.5) \<longrightarrow>
      tier (assessRisk scores) = ''High'')"
proof -
  define q where
    "q = js_div (foldl (\<lambda>acc val. js_add acc val) (Fin 0) (map to_double scores))
           (length scores)"
  have s: "score (assessRisk scores) = q"
    by (simp add: assessRisk_def Let_def q_def)
  have t: "tier (assessRisk scores) =
      (if js_le q (Fin 2) then ''Low''
       else if js_le q (Fin 3.5) then ''Medium'' else ''High'')"
    by (simp add: assessRisk_def Let_def q_def)
  show ?thesis unfolding s t by (cases q) auto
qed

text \<open>
  A score of exactly \<open>2.0\<close>, one of exactly \<open>3.5\<close> (which no array of seven integers
  has) and the least score above \<open>3.5\<close> that seven integers can have, the double
  nearest to \<open>25 / 7\<close> (3.5714285714285716).
\<close>

theorem assessRisk_tier_intervals_witness:
  "score (assessRisk [2, 2, 2, 2, 2, 2, 2]) = Fin 2 \<and>
   tier (assessRisk [2, 2, 2, 2, 2, 2, 2]) = ''Low'' \<and>
   score (assessRisk [3, 4]) = Fin 3.5 \<and>
   tier (assessRisk [3, 4]) = ''Medium'' \<and>
   score (assessRisk [3, 3, 3, 4, 4, 4, 4]) = Fin (8042142191733029 / 2251799813685248) \<and>
   tier (assessRisk [3, 3, 3, 4, 4, 4, 4]) = ''High''"
proof -
  have a: "score (assessRisk [2, 2, 2, 2, 2, 2, 2]) = Fin 2"
    by (simp add: assessRisk_exact_sum Let_def round_double_small_ints)
  have b: "score (assessRisk [3, 4]) = Fin 3.5"
    using round_double_7_2 by (simp add: assessRisk_exact_sum Let_def)
  have c: "score (assessRisk [3, 3, 3, 4, 4, 4, 4]) =
      Fin (8042142191733029 / 2251799813685248)"
    by (simp add: assessRisk_exact_sum Let_def round_double_25_7)
  show ?thesis
    using assessRisk_tier_intervals [of "[2, 2, 2, 2, 2, 2, 2]"]
      assessRisk_tier_intervals [of "[3, 4]"]
      assessRisk_tier_intervals [of "[3, 3, 3, 4, 4, 4, 4]"]
    by (simp add: a b c)
qed

text \<open>
  Claim C4. For every sequence of exactly 7 integers, each in \<open>[1, 5]\<close>, the score that
  \<^verbatim>\<open>assessRisk\<close> returns is the arithmetic mean of the sequence as a double, that is
  the double nearest to the mean, and it lies in \<open>[1.0, 5.0]\<close>.
\<close>

theorem assessRisk_score_mean_bounds:
  assumes len: "length scores = 7"
    and rng: "\<forall>x\<in>set scores. 1 \<le> x \<and> x \<le> 5"
  shows "score (assessRisk scores) = round_double (mean scores) \<and>
         js_le (Fin 1) (score (assessRisk scores)) \<and>
         js_le (score (assessRisk scores)) (Fin 5)"
proof -
  from sum_list_bounds [OF rng] len
  have lo: "7 \<le> sum_list scores" and hi: "sum_list scores \<le> 35"
    by simp_all
  from rng have nonneg: "\<forall>x\<in>set scores. 0 \<le> x"
    by auto
  from hi have small: "sum_list scores < 2 ^ 53"
    by simp
  have s: "score (assessRisk scores) = round_double (mean scores)"
    using len by (simp add: assessRisk_exact_sum [OF nonneg small] Let_def mean_def)
  from lo hi len have "of_int 1 \<le> mean scores" and "mean scores \<le> of_int 5"
    by (simp_all add: mean_def)
  from round_double_between_ints [OF _ this]
  obtain r where "round_double (mean scores) = Fin r" and "1 \<le> r" and "r \<le> 5"
    by auto
  with s show ?thesis
    by simp
qed

text \<open>
  Seven scores with the mean \<open>18 / 7\<close>, which is no double: the score is the double
  nearest to it (2.5714285714285716).
\<close>

theorem assessRisk_score_mean_bounds_witness:
  "length [1, 2, 3, 4, 5, 1, 2 :: int] = 7 \<and>
   mean [1, 2, 3, 4, 5, 1, 2] = 18 / 7 \<and>
   score (assessRisk [1, 2, 3, 4, 5, 1, 2]) = Fin (5790342378047781 / 2251799813685248) \<and>
   js_le (Fin 1) (score (assessRisk [1, 2, 3, 4, 5, 1, 2])) \<and>
   js_le (score (assessRisk [1, 2, 3, 4, 5, 1, 2])) (Fin 5)"
proof -
  have len: "length [1, 2, 3, 4, 5, 1, 2 :: int] = 7"
    by simp
  have rng: "\<forall>x\<in>set [1, 2, 3, 4, 5, 1, 2 :: int]. 1 \<le> x \<and> x \<le> 5"
    by simp
  have m: "mean [1, 2, 3, 4, 5, 1, 2] = 18 / 7"
    by (simp add: mean_def)
  show ?thesis
    using assessRisk_score_mean_bounds [OF len rng] len m
    by (simp add: round_double_18_7)
qed

subsection \<open>getApprovalPath\<close>

text \<open>
  Claim C1, as amended. A call of \<^verbatim>\<open>getApprovalPath\<close> with the category \<^verbatim>\<open>'Normal'\<close> and
  the tier \<^verbatim>\<open>null\<close> raises no error: the key it looks up is \<^verbatim>\<open>'Normal-null'\<close>, which the
  table does not have, and the call returns the empty step list.
\<close>

theorem getApprovalPath_Normal_null_returns_empty:
  "getApprovalPath APPROVAL_WORKFLOWS (JStr ''Normal'') JNull = Returns (Arr [])"
  by (simp add: getApprovalPath_def Get_def or_else_def APPROVAL_WORKFLOWS_def
      Object_prototype_def)

text \<open>
  The claim as the specification states it, that this call fails with a
  \<^verbatim>\<open>MissingTier\<close> error, does not hold of the source.
\<close>

theorem getApprovalPath_Normal_null_not_MissingTier:
  "getApprovalPath APPROVAL_WORKFLOWS (JStr ''Normal'') JNull \<noteq> Throws ''MissingTier''"
  by (simp add: getApprovalPath_def)

text \<open>
  Claim C5. For every lookup key that is absent from the workflow table (other than the
  category \<^verbatim>\<open>'Normal'\<close> with the tier \<^verbatim>\<open>null\<close>), \<^verbatim>\<open>getApprovalPath\<close> is to return an empty
  step sequence. The source does not do so at the category \<^verbatim>\<open>'toString'\<close>: the key is
  absent from the table, but the table object inherits a member of that name, the access
  finds it, the fallback \<^verbatim>\<open>|| []\<close> does not apply, and the call returns the member,
  which is no step sequence. At the category \<^verbatim>\<open>'Urgent'\<close>, which names nothing, the same
  statement returns the empty array.
\<close>

theorem getApprovalPath_inherited_key_leaks:
  "map_of APPROVAL_WORKFLOWS (lookup_key (JStr ''toString'') JNull) = None \<and>
   getApprovalPath APPROVAL_WORKFLOWS (JStr ''toString'') JNull =
     Returns (Builtin ''toString'') \<and>
   map_of APPROVAL_WORKFLOWS (lookup_key (JStr ''Urgent'') JNull) = None \<and>
   getApprovalPath APPROVAL_WORKFLOWS (JStr ''Urgent'') JNull = Returns (Arr [])"
  by (simp add: getApprovalPath_def Get_def or_else_def APPROVAL_WORKFLOWS_def
      Object_prototype_def lookup_key_def)

text \<open>
  The fallback applies at every key that names neither a row of the table nor an
  inherited member.
\<close>

lemma getApprovalPath_fallback:
  assumes "map_of tbl (lookup_key changeType riskTier) = None"
    and "lookup_key changeType riskTier \<notin> set Object_prototype"
  shows "getApprovalPath tbl changeType riskTier = Returns (Arr [])"
  using assms
  by (simp add: getApprovalPath_def lookup_key_def Get_def or_else_def split: if_splits)

text \<open>
  Claim C6. For each key of the table, \<^verbatim>\<open>getApprovalPath\<close> returns the step list of that
  key as it stands, in its order: the call with \<^verbatim>\<open>'Standard'\<close> and \<^verbatim>\<open>null\<close> returns the 6
  Standard steps, the call with \<^verbatim>\<open>'Normal'\<close> and \<^verbatim>\<open>'Medium'\<close> the 8 Normal-Medium steps.
\<close>

theorem getApprovalPath_table_entries:
  "(map_of tbl (lookup_key changeType riskTier) = Some steps \<longrightarrow>
      getApprovalPath tbl changeType riskTier = Returns (Arr steps)) \<and>
   map fst APPROVAL_WORKFLOWS =
     [''Standard'', ''Normal-Low'', ''Normal-Medium'', ''Normal-High'', ''Emergency''] \<and>
   getApprovalPath APPROVAL_WORKFLOWS (JStr ''Standard'') JNull =
     Returns (Arr
       [''Requester triggers pipeline'',
        ''Automated pre-checks (lint, test, scan)'',
        ''Auto-approved '' @ [CHR 0xE2, CHR 0x80, CHR 0x94] @ '' change model match verified'',
        ''Deploy'',
        ''Automated validation'',
        ''Change record logged automatically'']) \<and>
   getApprovalPath APPROVAL_WORKFLOWS (JStr ''Normal'') (JStr ''Medium'') =
     Returns (Arr
       [''Requester submits RFC'',
        ''Automated risk scoring'',
        ''Technical review (architect or senior engineer)'',
        ''Change authority approval'',
        ''Scheduled in change calendar (with conflict check)'',
        ''Deploy with monitoring'',
        ''Validation + brief PIR'',
        ''Close RFC'']) \<and>
   (\<exists>s. getApprovalPath APPROVAL_WORKFLOWS (JStr ''Standard'') JNull = Returns (Arr s) \<and>
        length s = 6) \<and>
   (\<exists>s. getApprovalPath APPROVAL_WORKFLOWS (JStr ''Normal'') (JStr ''Medium'') =
          Returns (Arr s) \<and> length s = 8)"
proof -
  have general: "map_of tbl (lookup_key changeType riskTier) = Some steps \<longrightarrow>
      getApprovalPath tbl changeType riskTier = Returns (Arr steps)"
    by (simp add: getApprovalPath_def lookup_key_def Get_def or_else_def)
  have keys: "map fst APPROVAL_WORKFLOWS =
      [''Standard'', ''Normal-Low'', ''Normal-Medium'', ''Normal-High'', ''Emergency'']"
    by (simp add: APPROVAL_WORKFLOWS_def)
  have standard: "getApprovalPath APPROVAL_WORKFLOWS (JStr ''Standard'') JNull =
     Returns (Arr
       [''Requester triggers pipeline'',
        ''Automated pre-checks (lint, test, scan)'',
        ''Auto-approved '' @ [CHR 0xE2, CHR 0x80, CHR 0x94] @ '' change model match verified'',
        ''Deploy'',
        ''Automated validation'',
        ''Change record logged automatically''])"
    by (simp add: getApprovalPath_def Get_def or_else_def APPROVAL_WORKFLOWS_def)
  have medium: "getApprovalPath APPROVAL_WORKFLOWS (JStr ''Normal'') (JStr ''Medium'') =
     Returns (Arr
       [''Requester submits RFC'',
        ''Automated risk scoring'',
        ''Technical review (architect or senior engineer)'',
        ''Change authority approval'',
        ''Scheduled in change calendar (with conflict check)'',
        ''Deploy with monitoring'',
        ''Validation + brief PIR'',
        ''Close RFC''])"
    by (simp add: getApprovalPath_def Get_def or_else_def APPROVAL_WORKFLOWS_def)
  have six: "\<exists>s. getApprovalPath APPROVAL_WORKFLOWS (JStr ''Standard'') JNull =
      Returns (Arr s) \<and> length s = 6"
    unfolding standard by simp
  have eight: "\<exists>s. getApprovalPath APPROVAL_WORKFLOWS (JStr ''Normal'') (JStr ''Medium'') =
      Returns (Arr s) \<and> length s = 8"
    unfolding medium by simp
  from general keys standard medium six eight show ?thesis
    by blast
qed

text \<open>The key \<^verbatim>\<open>'Normal-High'\<close> and its 10 steps.\<close>

theorem getApprovalPath_table_entries_witness:
  "getApprovalPath APPROVAL_WORKFLOWS (JStr ''Normal'') (JStr ''High'') =
     Returns (Arr
       [''Requester submits RFC'',
        ''Automated risk scoring'',
        ''Technical review + security review'',
        ''Pre-CAB: documentation completeness check'',
        ''CAB review (weekly cadence or ad-hoc)'',
        ''Senior management sign-off'',
        ''Scheduled with communication plan'',
        ''Deploy with war-room / bridge call'',
        ''Validation + full PIR'',
        ''Close RFC''])"
proof -
  have entry: "map_of APPROVAL_WORKFLOWS (lookup_key (JStr ''Normal'') (JStr ''High'')) =
     Some
       [''Requester submits RFC'',
        ''Automated risk scoring'',
        ''Technical review + security review'',
        ''Pre-CAB: documentation completeness check'',
        ''CAB review (weekly cadence or ad-hoc)'',
        ''Senior management sign-off'',
        ''Scheduled with communication plan'',
        ''Deploy with war-room / bridge call'',
        ''Validation + full PIR'',
        ''Close RFC'']"
    by (simp add: lookup_key_def APPROVAL_WORKFLOWS_def)
  from getApprovalPath_table_entries have
    "map_of APPROVAL_WORKFLOWS (lookup_key (JStr ''Normal'') (JStr ''High'')) = Some steps \<longrightarrow>
     getApprovalPath APPROVAL_WORKFLOWS (JStr ''Normal'') (JStr ''High'') = Returns (Arr steps)"
    for steps
    by blast
  with entry show ?thesis
    by blast
qed

text \<open>
  Claim C7. For every tier value, \<^verbatim>\<open>null\<close> included, the call with the category
  \<^verbatim>\<open>'Emergency'\<close> returns the 7 Emergency steps as they stand; for a category other than
  \<^verbatim>\<open>'Normal'\<close> the tier argument has no effect on the result.
\<close>

theorem getApprovalPath_Emergency_ignores_tier:
  "getApprovalPath APPROVAL_WORKFLOWS (JStr ''Emergency'') riskTier =
     Returns (Arr
       [''Incident declared'',
        ''Emergency RFC created (minimal fields)'',
        ''ECAB approval (phone/chat, 2 approvers minimum)'',
        ''Implement immediately'',
        ''Validate service restored'',
        ''Retrospective RFC completion (within 48 h)'',
        ''Mandatory PIR'']) \<and>
   (changeType \<noteq> JStr ''Normal'' \<longrightarrow>
      getApprovalPath tbl changeType riskTier = getApprovalPath tbl changeType riskTier')"
  by (simp add: getApprovalPath_def Get_def or_else_def APPROVAL_WORKFLOWS_def)

text \<open>The category \<^verbatim>\<open>'Standard'\<close> with the tier \<^verbatim>\<open>'High'\<close> and with \<^verbatim>\<open>undefined\<close>.\<close>

theorem getApprovalPath_Emergency_ignores_tier_witness:
  "getApprovalPath APPROVAL_WORKFLOWS (JStr ''Standard'') (JStr ''High'') =
     getApprovalPath APPROVAL_WORKFLOWS (JStr ''Standard'') JUndefined"
proof -
  have "JStr ''Standard'' \<noteq> JStr ''Normal''"
    by simp
  with getApprovalPath_Emergency_ignores_tier
    [of "JStr ''High''" "JStr ''Standard''" APPROVAL_WORKFLOWS JUndefined]
  show ?thesis
    by blast
qed

subsection \<open>The functions together\<close>

text \<open>
  Claim C8. End to end, as the handler of the Assess Risk button composes the two
  functions: the scores \<open>[1,1,1,1,1,1,1]\<close> give the score \<open>1\<close> (shown as 1.00), the
  tier \<^verbatim>\<open>'Low'\<close> and the 7 steps of Normal-Low; the scores \<open>[5,5,5,5,5,5,5]\<close> give the
  score \<open>5\<close> (shown as 5.00), the tier \<^verbatim>\<open>'High'\<close> and the 10 steps of Normal-High.
\<close>

theorem assessRisk_getApprovalPath_scenarios:
  "assessRisk [1, 1, 1, 1, 1, 1, 1] = \<lparr>score = Fin 1, tier = ''Low''\<rparr> \<and>
   getApprovalPath APPROVAL_WORKFLOWS (JStr ''Normal'')
       (JStr (tier (assessRisk [1, 1, 1, 1, 1, 1, 1]))) =
     Returns (Arr
       [''Requester submits RFC'',
        ''Automated risk scoring'',
        ''Peer review (1 reviewer, async)'',
        ''Approved '' @ [CHR 0xE2, CHR 0x86, CHR 0x92] @ '' Scheduled in change calendar'',
        ''Deploy in approved window'',
        ''Validation'',
        ''Close RFC'']) \<and>
   assessRisk [5, 5, 5, 5, 5, 5, 5] = \<lparr>score = Fin 5, tier = ''High''\<rparr> \<and>
   getApprovalPath APPROVAL_WORKFLOWS (JStr ''Normal'')
       (JStr (tier (assessRisk [5, 5, 5, 5, 5, 5, 5]))) =
     Returns (Arr
       [''Requester submits RFC'',
        ''Automated risk scoring'',
        ''Technical review + security review'',
        ''Pre-CAB: documentation completeness check'',
        ''CAB review (weekly cadence or ad-hoc)'',
        ''Senior management sign-off'',
        ''Scheduled with communication plan'',
        ''Deploy with war-room / bridge call'',
        ''Validation + full PIR'',
        ''Close RFC''])"
proof -
  have low: "assessRisk [1, 1, 1, 1, 1, 1, 1] = \<lparr>score = Fin 1, tier = ''Low''\<rparr>"
    by (simp add: assessRisk_exact_sum Let_def round_double_small_ints)
  have high: "assessRisk [5, 5, 5, 5, 5, 5, 5] = \<lparr>score = Fin 5, tier = ''High''\<rparr>"
    by (simp add: assessRisk_exact_sum Let_def round_double_small_ints)
  show ?thesis
    unfolding low high
    by (simp add: getApprovalPath_def Get_def or_else_def APPROVAL_WORKFLOWS_def)
qed

text \<open>
  Claim C9, as amended. The three functions are deterministic and write to nothing that
  exists: a call leaves the dimension table, the properties of the workflow table and
  every array already on the heap as they are (it can only add a new empty array). In
  any sequence of calls of the three functions on a well-formed heap, each output is
  determined by the arguments of its call and the contents of the workflow table at the
  start, so two calls with identical arguments return outputs with identical contents;
  on the module as loaded the table is the one of the source. The outputs of
  \<^verbatim>\<open>classifyChange\<close> and \<^verbatim>\<open>assessRisk\<close> depend on no state at all. The workflow table is
  state that \<^verbatim>\<open>getApprovalPath\<close> reads, and the array it returns is the table's own, so
  this holds as long as no caller writes to the table or to a returned array in between.
\<close>

theorem calls_write_nothing_and_repeat:
  "workflows (snd (invoke h c)) = workflows h \<and>
   dimensions (snd (invoke h c)) = dimensions h \<and>
   take (length (arrays h)) (arrays (snd (invoke h c))) = arrays h \<and>
   (wf_heap h \<longrightarrow>
      fst (trace h (map Call cs)) = map (\<lambda>c. Some (answer (table_of h) c)) cs) \<and>
   fst (trace module_heap (map Call cs)) = map (\<lambda>c. Some (answer APPROVAL_WORKFLOWS c)) cs \<and>
   fst (invoke h (ClassifyChange serviceDown preApproved)) =
     fst (invoke h' (ClassifyChange serviceDown preApproved)) \<and>
   fst (invoke h (AssessRisk scores)) = fst (invoke h' (AssessRisk scores))"
  using invoke_frame [of h c] trace_calls [of h cs] trace_calls [of module_heap cs]
    module_heap_table
  by simp

text \<open>
  Three calls on the module as loaded, the second of which allocates a new array.
\<close>

theorem calls_write_nothing_and_repeat_witness:
  "wf_heap module_heap \<and>
   fst (trace module_heap
     (map Call
       [GetApprovalPath (JStr ''Emergency'') JNull,
        GetApprovalPath (JStr ''Urgent'') JNull,
        GetApprovalPath (JStr ''Emergency'') JNull])) =
     [Some (answer (table_of module_heap) (GetApprovalPath (JStr ''Emergency'') JNull)),
      Some (answer (table_of module_heap) (GetApprovalPath (JStr ''Urgent'') JNull)),
      Some (answer (table_of module_heap) (GetApprovalPath (JStr ''Emergency'') JNull))] \<and>
   answer (table_of module_heap) (GetApprovalPath (JStr ''Urgent'') JNull) =
     Path (Returns (Arr []))"
proof -
  have wf: "wf_heap module_heap"
    by (simp add: wf_heap_def module_heap_def APPROVAL_WORKFLOWS_def upt_rec)
  have tbl: "table_of module_heap = APPROVAL_WORKFLOWS"
    by (simp add: table_of_def module_heap_def APPROVAL_WORKFLOWS_def upt_rec)
  have urgent: "answer (table_of module_heap) (GetApprovalPath (JStr ''Urgent'') JNull) =
      Path (Returns (Arr []))"
    unfolding tbl
    by (simp add: getApprovalPath_def Get_def or_else_def APPROVAL_WORKFLOWS_def
        Object_prototype_def)
  from calls_write_nothing_and_repeat
    [of module_heap _
      "[GetApprovalPath (JStr ''Emergency'') JNull,
        GetApprovalPath (JStr ''Urgent'') JNull,
        GetApprovalPath (JStr ''Emergency'') JNull]"]
  have "wf_heap module_heap \<longrightarrow>
    fst (trace module_heap
     (map Call
       [GetApprovalPath (JStr ''Emergency'') JNull,
        GetApprovalPath (JStr ''Urgent'') JNull,
        GetApprovalPath (JStr ''Emergency'') JNull])) =
     map (\<lambda>c. Some (answer (table_of module_heap) c))
       [GetApprovalPath (JStr ''Emergency'') JNull,
        GetApprovalPath (JStr ''Urgent'') JNull,
        GetApprovalPath (JStr ''Emergency'') JNull]"
    by blast
  with wf urgent show ?thesis
    by simp
qed

text \<open>
  The claim as the specification states it fails once a caller writes to what a call
  returned. The first call returns a reference to the array that the table holds for
  \<^verbatim>\<open>'Standard'\<close>; the caller appends a string to it; the second call, with the same
  arguments, returns seven steps where the first returned six.
\<close>

theorem caller_write_changes_later_result:
  "fst (invoke module_heap (GetApprovalPath (JStr ''Standard'') JNull)) =
     Path (Returns (ArrayRef 0)) \<and>
   fst (trace module_heap
     [Call (GetApprovalPath (JStr ''Standard'') JNull),
      Push 0 ''Extra step'',
      Call (GetApprovalPath (JStr ''Standard'') JNull)]) =
     [Some (Path (Returns (Arr
        [''Requester triggers pipeline'',
         ''Automated pre-checks (lint, test, scan)'',
         ''Auto-approved '' @ [CHR 0xE2, CHR 0x80, CHR 0x94] @ '' change model match verified'',
         ''Deploy'',
         ''Automated validation'',
         ''Change record logged automatically'']))),
      None,
      Some (Path (Returns (Arr
        [''Requester triggers pipeline'',
         ''Automated pre-checks (lint, test, scan)'',
         ''Auto-approved '' @ [CHR 0xE2, CHR 0x80, CHR 0x94] @ '' change model match verified'',
         ''Deploy'',
         ''Automated validation'',
         ''Change record logged automatically'',
         ''Extra step''])))] \<and>
   fst (trace module_heap
     [Call (GetApprovalPath (JStr ''Standard'') JNull),
      Push 0 ''Extra step'',
      Call (GetApprovalPath (JStr ''Standard'') JNull)]) ! 0 \<noteq>
   fst (trace module_heap
     [Call (GetApprovalPath (JStr ''Standard'') JNull),
      Push 0 ''Extra step'',
      Call (GetApprovalPath (JStr ''Standard'') JNull)]) ! 2"
  by (simp add: module_heap_def APPROVAL_WORKFLOWS_def getApprovalPath_heap_def Get_ref_def
      or_new_array_def upt_rec)

end
